theory Spec2Isabelle
  imports Complex_Main
begin

section \<open>Data model of the tile view\<close>

text \<open>
  The development follows \<^verbatim>\<open>src/game/ui/tileview/tileview.cpp\<close>. Vectors are the
  engine's \<^verbatim>\<open>Vec2<T>\<close> and \<^verbatim>\<open>Vec3<T>\<close>. C++ \<^verbatim>\<open>int\<close> values are modelled as
  unbounded integers: the integer arithmetic of the file is increments and decrements of
  coordinates below the map size and halving of sizes, which do not overflow.
\<close>

datatype 'a Vec2 = Vec2 (x2: 'a) (y2: 'a)

datatype 'a Vec3 = Vec3 (x3: 'a) (y3: 'a) (z3: 'a)

text \<open>
  A \<^verbatim>\<open>float\<close> is a number, an infinity or NaN. The operations follow IEEE 754 on these
  values: NaN is absorbing, comparisons with NaN are false, opposite infinities add to
  NaN, zero divided by zero is NaN and a non-zero number divided by zero is an infinity.
  Numbers are kept exact: rounding and overflow to infinity are outside the model, and
  there is one zero, the positive one (every divisor of the file is a converted integer
  or the constant 2).
\<close>

datatype float = Finite real | PInf | NInf | NaN

fun fneg :: "float \<Rightarrow> float" where
  "fneg (Finite a) = Finite (- a)"
| "fneg PInf = NInf"
| "fneg NInf = PInf"
| "fneg NaN = NaN"

fun fadd :: "float \<Rightarrow> float \<Rightarrow> float" where
  "fadd (Finite a) (Finite b) = Finite (a + b)"
| "fadd NaN b = NaN"
| "fadd a NaN = NaN"
| "fadd PInf NInf = NaN"
| "fadd NInf PInf = NaN"
| "fadd PInf b = PInf"
| "fadd a PInf = PInf"
| "fadd NInf b = NInf"
| "fadd a NInf = NInf"

definition fsub :: "float \<Rightarrow> float \<Rightarrow> float" where
  "fsub a b = fadd a (fneg b)"

fun fmul :: "float \<Rightarrow> float \<Rightarrow> float" where
  "fmul (Finite a) (Finite b) = Finite (a * b)"
| "fmul NaN b = NaN"
| "fmul a NaN = NaN"
| "fmul (Finite a) PInf = (if a = 0 then NaN else if 0 < a then PInf else NInf)"
| "fmul (Finite a) NInf = (if a = 0 then NaN else if 0 < a then NInf else PInf)"
| "fmul PInf (Finite b) = (if b = 0 then NaN else if 0 < b then PInf else NInf)"
| "fmul NInf (Finite b) = (if b = 0 then NaN else if 0 < b then NInf else PInf)"
| "fmul PInf PInf = PInf"
| "fmul PInf NInf = NInf"
| "fmul NInf PInf = NInf"
| "fmul NInf NInf = PInf"

fun fdiv :: "float \<Rightarrow> float \<Rightarrow> float" where
  "fdiv (Finite a) (Finite b) =
     (if b \<noteq> 0 then Finite (a / b)
      else if a = 0 then NaN else if 0 < a then PInf else NInf)"
| "fdiv NaN b = NaN"
| "fdiv a NaN = NaN"
| "fdiv (Finite a) PInf = Finite 0"
| "fdiv (Finite a) NInf = Finite 0"
| "fdiv PInf (Finite b) = (if 0 \<le> b then PInf else NInf)"
| "fdiv NInf (Finite b) = (if 0 \<le> b then NInf else PInf)"
| "fdiv a b = NaN"

text \<open>\<^verbatim>\<open>a < b\<close>, \<^verbatim>\<open>a > b\<close> and \<^verbatim>\<open>a <= b\<close> on floats.\<close>

fun flt :: "float \<Rightarrow> float \<Rightarrow> bool" where
  "flt (Finite a) (Finite b) = (a < b)"
| "flt NaN b = False"
| "flt a NaN = False"
| "flt a NInf = False"
| "flt PInf b = False"
| "flt NInf b = True"
| "flt a PInf = True"

definition fgt :: "float \<Rightarrow> float \<Rightarrow> bool" where
  "fgt a b = flt b a"

definition fle :: "float \<Rightarrow> float \<Rightarrow> bool" where
  "fle a b = (flt a b \<or> (a = b \<and> a \<noteq> NaN))"

text \<open>Conversion of an \<^verbatim>\<open>int\<close> to \<^verbatim>\<open>float\<close>.\<close>

definition float_of_int :: "int \<Rightarrow> float" where
  "float_of_int n = Finite (of_int n)"

text \<open>
  The enumerations are declared in headers that are not part of the sources at hand; their
  members are the ones the code names. A C++ enumeration can hold a value outside its
  members (the code has \<^verbatim>\<open>default:\<close> and \<^verbatim>\<open>else\<close> branches for that), which is the
  last constructor of each type.
\<close>

datatype TileViewMode = Isometric | Strategy | UnknownViewMode int

datatype Mode = City | Battle | UnknownMode int

datatype LayerDrawingMode =
  UpToCurrentLevel | AllLevels | OnlyCurrentLevel | UnknownLayerDrawingMode int

datatype TileObjectType = Ground | Unit | Item | OtherType int

text \<open>
  A tile object is held through a shared pointer; \<open>oid\<close> is the identity of the pointee,
  which is what \<^verbatim>\<open>obj == drawBackBeforeThis\<close> compares.
\<close>

record TileObject =
  oid :: nat
  getType :: TileObjectType
  getPosition :: "float Vec3"

record Tile =
  drawnObjects :: "TileObject list list"
  intersectingObjects :: "TileObject list"

record TileMap =
  map_size :: "int Vec3"
  getTile :: "int \<Rightarrow> int \<Rightarrow> int \<Rightarrow> Tile"
  getLayerCount :: int

type_synonym Image = string

type_synonym Palette = string

datatype LogLevel = LevelInfo | LevelWarning | LevelError

text \<open>
  What the tile view does to the framework singleton (renderer, sound backend, data
  loader, logger), in the order it does it.
\<close>

datatype effect =
    LogMsg LogLevel string
  | RendererClear
  | RendererSetPalette "Palette option"
  | SetListenerPosition "float Vec3"
  | DrawImage "Image option" "float Vec2"
  | DrawObject TileObject "float Vec2" TileViewMode int
  | DrawLine "float Vec2" "float Vec2"
  | WriteImage string

record TileView =
  tilemap :: TileMap
  isoTileSize :: "int Vec3"
  stratTileSize :: "int Vec2"
  viewMode :: TileViewMode
  mode :: Mode
  scrollUp :: bool
  scrollDown :: bool
  scrollLeft :: bool
  scrollRight :: bool
  dpySize :: "int Vec2"
  currentZLevel :: int
  selectedTilePosition :: "int Vec3"
  selectedTileImageOffset :: "int Vec2"
  maxZDraw :: int
  centerPos :: "float Vec3"
  isoScrollSpeed :: "float Vec2"
  stratScrollSpeed :: "float Vec2"
  layerDrawingMode :: LayerDrawingMode
  selectedTileEmptyImageBack :: "Image option"
  selectedTileEmptyImageFront :: "Image option"
  selectedTileFilledImageBack :: "Image option"
  selectedTileFilledImageFront :: "Image option"
  selectedTileBackgroundImageBack :: "Image option"
  selectedTileBackgroundImageFront :: "Image option"
  pal :: "Palette option"
  fw_trace :: "effect list"

definition emit :: "effect list \<Rightarrow> TileView \<Rightarrow> TileView" where
  "emit es s = s\<lparr>fw_trace := fw_trace s @ es\<rparr>"

section \<open>Arithmetic of the language\<close>

text \<open>C++ integer division truncates towards zero.\<close>

definition cdiv :: "int \<Rightarrow> int \<Rightarrow> int" where
  "cdiv a b = sgn a * sgn b * (\<bar>a\<bar> div \<bar>b\<bar>)"

text \<open>
  Conversion of a floating-point value to \<^verbatim>\<open>int\<close> truncates towards zero. For an
  infinity or NaN the language leaves the result undefined; the model takes the value
  the conversion instruction of the x86 processors yields, the least 32-bit integer.
\<close>

definition indefinite :: int where
  "indefinite = - (2 ^ 31)"

fun to_int :: "float \<Rightarrow> int" where
  "to_int (Finite r) = (if 0 \<le> r then \<lfloor>r\<rfloor> else \<lceil>r\<rceil>)"
| "to_int a = indefinite"

definition to_int3 :: "float Vec3 \<Rightarrow> int Vec3" where
  "to_int3 v = Vec3 (to_int (x3 v)) (to_int (y3 v)) (to_int (z3 v))"

definition to_float2 :: "int Vec2 \<Rightarrow> float Vec2" where
  "to_float2 v = Vec2 (float_of_int (x2 v)) (float_of_int (y2 v))"

definition to_float3 :: "int Vec3 \<Rightarrow> float Vec3" where
  "to_float3 v = Vec3 (float_of_int (x3 v)) (float_of_int (y3 v)) (float_of_int (z3 v))"

definition add2 :: "float Vec2 \<Rightarrow> float Vec2 \<Rightarrow> float Vec2" where
  "add2 a b = Vec2 (fadd (x2 a) (x2 b)) (fadd (y2 a) (y2 b))"

definition sub2 :: "float Vec2 \<Rightarrow> float Vec2 \<Rightarrow> float Vec2" where
  "sub2 a b = Vec2 (fsub (x2 a) (x2 b)) (fsub (y2 a) (y2 b))"

definition sub3 :: "float Vec3 \<Rightarrow> float Vec3 \<Rightarrow> float Vec3" where
  "sub3 a b = Vec3 (fsub (x3 a) (x3 b)) (fsub (y3 a) (y3 b)) (fsub (z3 a) (z3 b))"

text \<open>
  Modelled from the spec: \<^verbatim>\<open>clamp\<close> is declared in a library header that is not part
  of the sources at hand; the spec uses it as the usual clamp of a value to the interval
  from \<open>lo\<close> to \<open>hi\<close>.
\<close>

definition clamp :: "int \<Rightarrow> int \<Rightarrow> int \<Rightarrow> int" where
  "clamp v lo hi = (if v < lo then lo else if hi < v then hi else v)"

section \<open>Construction\<close>

text \<open>
  \<^verbatim>\<open>TileView::TileView\<close>. The display size comes from the framework and is a
  parameter here. For a mode that is neither City nor Battle the constructor logs an
  error and assigns neither the layer-drawing mode nor the images: the images stay null
  and the layer-drawing mode keeps whatever value its storage holds, the parameter
  \<open>indeterminate\<close>.
\<close>

definition TileView_new ::
  "TileMap \<Rightarrow> int Vec3 \<Rightarrow> int Vec2 \<Rightarrow> TileViewMode \<Rightarrow> Mode \<Rightarrow> int Vec2 \<Rightarrow> LayerDrawingMode
   \<Rightarrow> TileView" where
  "TileView_new m isoSz stratSz initialMode md dpy indeterminate =
    (let s0 = \<lparr> tilemap = m, isoTileSize = isoSz, stratTileSize = stratSz,
                 viewMode = initialMode, mode = md,
                 scrollUp = False, scrollDown = False, scrollLeft = False,
                 scrollRight = False, dpySize = dpy, currentZLevel = 1,
                 selectedTilePosition = Vec3 0 0 0, selectedTileImageOffset = Vec2 0 0,
                 maxZDraw = z3 (map_size m),
                 centerPos = Vec3 (Finite 0) (Finite 0) (Finite 0),
                 isoScrollSpeed = Vec2 (Finite 0.5) (Finite 0.5),
                 stratScrollSpeed = Vec2 (Finite 2) (Finite 2),
                 layerDrawingMode = indeterminate,
                 selectedTileEmptyImageBack = None, selectedTileEmptyImageFront = None,
                 selectedTileFilledImageBack = None, selectedTileFilledImageFront = None,
                 selectedTileBackgroundImageBack = None,
                 selectedTileBackgroundImageFront = None,
                 pal = None, fw_trace = [] \<rparr>;
         s1 = (case md of
                 City \<Rightarrow> s0\<lparr> layerDrawingMode := AllLevels,
                   selectedTileEmptyImageBack := Some ''city/selected-citytile-back.png'',
                   selectedTileFilledImageBack := Some ''city/selected-citytile-back.png'',
                   selectedTileBackgroundImageBack := Some ''city/selected-citytile-back.png'',
                   selectedTileEmptyImageFront := Some ''city/selected-citytile-front.png'',
                   selectedTileFilledImageFront := Some ''city/selected-citytile-front.png'',
                   selectedTileBackgroundImageFront :=
                     Some ''city/selected-citytile-front.png'',
                   pal := Some ''xcom3/ufodata/pal_01.dat'' \<rparr>
               | Battle \<Rightarrow> s0\<lparr> layerDrawingMode := UpToCurrentLevel,
                   selectedTileEmptyImageBack :=
                     Some ''battle/selected-battletile-empty-back.png'',
                   selectedTileEmptyImageFront :=
                     Some ''battle/selected-battletile-empty-front.png'',
                   selectedTileFilledImageBack :=
                     Some ''battle/selected-battletile-filled-back.png'',
                   selectedTileFilledImageFront :=
                     Some ''battle/selected-battletile-filled-front.png'',
                   selectedTileBackgroundImageBack :=
                     Some ''battle/selected-battletile-background-back.png'',
                   selectedTileBackgroundImageFront :=
                     Some ''battle/selected-battletile-background-front.png'',
                   selectedTileImageOffset := Vec2 23 22,
                   pal := Some ''xcom3/tacdata/tactical.pal'' \<rparr>
               | UnknownMode n \<Rightarrow> emit [LogMsg LevelError ''Unknown TileView::Mode %d''] s0)
     in emit [LogMsg LevelInfo ''dpySize: {%d,%d}''] s1)"

section \<open>Camera centre, selection, level and mode setters\<close>

text \<open>
  \<^verbatim>\<open>TileView::setScreenCenterTile(Vec3<float>)\<close>: one axis of the clamp. Both
  comparisons are false for NaN, which the last branch then stores.
\<close>

definition clampCenterAxis :: "float \<Rightarrow> int \<Rightarrow> float" where
  "clampCenterAxis c n =
    (if flt c (Finite 0) then Finite 0
     else if fgt c (float_of_int n) then float_of_int n
     else c)"

definition setScreenCenterTile :: "float Vec3 \<Rightarrow> TileView \<Rightarrow> TileView" where
  "setScreenCenterTile center s =
    (let sz = map_size (tilemap s);
         s1 = emit [SetListenerPosition
                      (Vec3 (x3 center) (y3 center) (float_of_int (cdiv (z3 sz) 2)))] s;
         clampedCenter = Vec3 (clampCenterAxis (x3 center) (x3 sz))
                              (clampCenterAxis (y3 center) (y3 sz))
                              (clampCenterAxis (z3 center) (z3 sz))
     in s1\<lparr>centerPos := clampedCenter\<rparr>)"

text \<open>\<^verbatim>\<open>TileView::setScreenCenterTile(Vec2<float>)\<close>.\<close>

definition setScreenCenterTile2 :: "float Vec2 \<Rightarrow> TileView \<Rightarrow> TileView" where
  "setScreenCenterTile2 center s =
    setScreenCenterTile (Vec3 (x2 center) (y2 center) (float_of_int (currentZLevel s))) s"

text \<open>
  \<^verbatim>\<open>TileView::setSelectedTilePosition\<close>: per axis, first the test against zero, then
  the test against the map size, on the value the first test left.
\<close>

definition clampSelAxis :: "int \<Rightarrow> int \<Rightarrow> int" where
  "clampSelAxis v n = (let v1 = (if v < 0 then 0 else v) in if v1 \<ge> n then n - 1 else v1)"

definition setSelectedTilePosition :: "int Vec3 \<Rightarrow> TileView \<Rightarrow> TileView" where
  "setSelectedTilePosition newPosition s =
    (let sz = map_size (tilemap s)
     in s\<lparr>selectedTilePosition :=
            Vec3 (clampSelAxis (x3 newPosition) (x3 sz))
                 (clampSelAxis (y3 newPosition) (y3 sz))
                 (clampSelAxis (z3 newPosition) (z3 sz))\<rparr>)"

text \<open>\<^verbatim>\<open>TileView::setZLevel\<close>.\<close>

definition setZLevel :: "int \<Rightarrow> TileView \<Rightarrow> TileView" where
  "setZLevel zLevel s =
    (let s1 = s\<lparr>currentZLevel := clamp zLevel 1 (maxZDraw s)\<rparr>
     in setScreenCenterTile
          (Vec3 (x3 (centerPos s1)) (y3 (centerPos s1))
                (float_of_int (currentZLevel s1 - 1))) s1)"

definition getZLevel :: "TileView \<Rightarrow> int" where
  "getZLevel s = currentZLevel s"

text \<open>\<^verbatim>\<open>TileView::setLayerDrawingMode\<close>.\<close>

definition setLayerDrawingMode :: "LayerDrawingMode \<Rightarrow> TileView \<Rightarrow> TileView" where
  "setLayerDrawingMode m s = (if mode s = Battle then s\<lparr>layerDrawingMode := m\<rparr> else s)"

text \<open>\<^verbatim>\<open>TileView::setViewMode\<close>.\<close>

definition setViewMode :: "TileViewMode \<Rightarrow> TileView \<Rightarrow> TileView" where
  "setViewMode newMode s = s\<lparr>viewMode := newMode\<rparr>"

section \<open>Coordinate transform\<close>

text \<open>
  Modelled from the spec: \<^verbatim>\<open>tileToScreenCoords\<close> is defined in the header
  \<^verbatim>\<open>tileview.h\<close>, which is not part of the sources at hand. The spec gives the
  isometric forward transform as
  \<^verbatim>\<open>screen.x = (tile.x - tile.y) * isoTileSize.x\<close>,
  \<^verbatim>\<open>screen.y = (tile.x + tile.y) * isoTileSize.y - tile.z * isoTileSize.z\<close>,
  and the strategy transform as an axis-aligned scale. An unknown view mode leaves the
  no-op default, the zero vector.
\<close>

definition tileToScreenCoords :: "TileView \<Rightarrow> float Vec3 \<Rightarrow> TileViewMode \<Rightarrow> float Vec2" where
  "tileToScreenCoords s c v =
    (case v of
       Isometric \<Rightarrow>
         Vec2 (fmul (fsub (x3 c) (y3 c)) (float_of_int (x3 (isoTileSize s))))
              (fsub (fmul (fadd (x3 c) (y3 c)) (float_of_int (y3 (isoTileSize s))))
                    (fmul (z3 c) (float_of_int (z3 (isoTileSize s)))))
     | Strategy \<Rightarrow>
         Vec2 (fmul (x3 c) (float_of_int (x2 (stratTileSize s))))
              (fmul (y3 c) (float_of_int (y2 (stratTileSize s))))
     | UnknownViewMode n \<Rightarrow> Vec2 (Finite 0) (Finite 0))"

text \<open>
  Modelled from the spec: \<^verbatim>\<open>screenToTileCoords\<close> (also in \<^verbatim>\<open>tileview.h\<close>). The
  spec: the inverse transform solves the 2x2 linear system for \<open>(tile.x, tile.y)\<close> given
  a target z-plane; in strategy mode it undoes the scale.
\<close>

definition screenToTileCoords ::
  "TileView \<Rightarrow> float Vec2 \<Rightarrow> float \<Rightarrow> TileViewMode \<Rightarrow> float Vec3" where
  "screenToTileCoords s screenPos z v =
    (case v of
       Isometric \<Rightarrow>
         (let sum = fdiv (fadd (y2 screenPos) (fmul z (float_of_int (z3 (isoTileSize s)))))
                         (float_of_int (y3 (isoTileSize s)));
              diff = fdiv (x2 screenPos) (float_of_int (x3 (isoTileSize s)))
          in Vec3 (fdiv (fadd sum diff) (Finite 2)) (fdiv (fsub sum diff) (Finite 2)) z)
     | Strategy \<Rightarrow>
         Vec3 (fdiv (x2 screenPos) (float_of_int (x2 (stratTileSize s))))
              (fdiv (y2 screenPos) (float_of_int (y2 (stratTileSize s)))) z
     | UnknownViewMode n \<Rightarrow> Vec3 (Finite 0) (Finite 0) z)"

text \<open>\<^verbatim>\<open>TileView::getScreenOffset\<close>: the transform of the centre in the current mode.\<close>

definition getScreenOffset :: "TileView \<Rightarrow> int Vec2" where
  "getScreenOffset s =
    (let screenOffset = tileToScreenCoords s (centerPos s) (viewMode s)
     in Vec2 (to_int (fsub (float_of_int (cdiv (x2 (dpySize s)) 2)) (x2 screenOffset)))
             (to_int (fsub (float_of_int (cdiv (y2 (dpySize s)) 2)) (y2 screenOffset))))"

text \<open>
  Modelled from the spec: the offset variants of the two transforms (in
  \<^verbatim>\<open>tileview.h\<close>) translate by the screen offset, in the current view mode. The code
  also instantiates them on integer vectors; those calls are modelled by the floating-point
  transform, truncated where the code stores the result in integers.
\<close>

definition tileToOffsetScreenCoords :: "TileView \<Rightarrow> float Vec3 \<Rightarrow> float Vec2" where
  "tileToOffsetScreenCoords s c =
    add2 (tileToScreenCoords s c (viewMode s)) (to_float2 (getScreenOffset s))"

definition offsetScreenToTileCoords :: "TileView \<Rightarrow> int Vec2 \<Rightarrow> int \<Rightarrow> int Vec3" where
  "offsetScreenToTileCoords s screenPos z =
    to_int3 (screenToTileCoords s
               (sub2 (to_float2 screenPos) (to_float2 (getScreenOffset s)))
               (float_of_int z) (viewMode s))"

section \<open>Input events\<close>

datatype KeyCode =
    SDLK_UP | SDLK_DOWN | SDLK_LEFT | SDLK_RIGHT
  | SDLK_s | SDLK_w | SDLK_a | SDLK_d | SDLK_r | SDLK_f
  | SDLK_1 | SDLK_2 | SDLK_3 | SDLK_F6 | SDLK_other int

datatype Event =
    EVENT_KEY_DOWN KeyCode
  | EVENT_KEY_UP KeyCode
  | EVENT_MOUSE_MOVE int int
  | EVENT_FINGER_MOVE bool float float
  | EVENT_OTHER

definition setSel :: "int Vec3 \<Rightarrow> TileView \<Rightarrow> TileView" where
  "setSel p s = s\<lparr>selectedTilePosition := p\<rparr>"

definition keyDown :: "KeyCode \<Rightarrow> TileView \<Rightarrow> TileView" where
  "keyDown k s =
    (let sel = selectedTilePosition s; sz = map_size (tilemap s)
     in case k of
          SDLK_UP \<Rightarrow> s\<lparr>scrollUp := True\<rparr>
        | SDLK_DOWN \<Rightarrow> s\<lparr>scrollDown := True\<rparr>
        | SDLK_LEFT \<Rightarrow> s\<lparr>scrollLeft := True\<rparr>
        | SDLK_RIGHT \<Rightarrow> s\<lparr>scrollRight := True\<rparr>
        | SDLK_s \<Rightarrow> (if y3 sel < y3 sz - 1
                     then setSel (Vec3 (x3 sel) (y3 sel + 1) (z3 sel)) s else s)
        | SDLK_w \<Rightarrow> (if y3 sel > 0
                     then setSel (Vec3 (x3 sel) (y3 sel - 1) (z3 sel)) s else s)
        | SDLK_a \<Rightarrow> (if x3 sel > 0
                     then setSel (Vec3 (x3 sel - 1) (y3 sel) (z3 sel)) s else s)
        | SDLK_d \<Rightarrow> (if x3 sel < x3 sz - 1
                     then setSel (Vec3 (x3 sel + 1) (y3 sel) (z3 sel)) s else s)
        | SDLK_r \<Rightarrow> (if z3 sel < z3 sz - 1
                     then setSel (Vec3 (x3 sel) (y3 sel) (z3 sel + 1)) s else s)
        | SDLK_f \<Rightarrow> (if z3 sel > 0
                     then setSel (Vec3 (x3 sel) (y3 sel) (z3 sel - 1)) s else s)
        | SDLK_1 \<Rightarrow> s\<lparr>pal := Some ''xcom3/ufodata/pal_01.dat''\<rparr>
        | SDLK_2 \<Rightarrow> s\<lparr>pal := Some ''xcom3/ufodata/pal_02.dat''\<rparr>
        | SDLK_3 \<Rightarrow> s\<lparr>pal := Some ''xcom3/ufodata/pal_03.dat''\<rparr>
        | SDLK_F6 \<Rightarrow> emit [LogMsg LevelWarning ''Writing voxel view to tileviewvoxels.png'',
                           WriteImage ''tileviewvoxels.png''] s
        | SDLK_other n \<Rightarrow> s)"

definition keyUp :: "KeyCode \<Rightarrow> TileView \<Rightarrow> TileView" where
  "keyUp k s =
    (case k of
       SDLK_UP \<Rightarrow> s\<lparr>scrollUp := False\<rparr>
     | SDLK_DOWN \<Rightarrow> s\<lparr>scrollDown := False\<rparr>
     | SDLK_LEFT \<Rightarrow> s\<lparr>scrollLeft := False\<rparr>
     | SDLK_RIGHT \<Rightarrow> s\<lparr>scrollRight := False\<rparr>
     | _ \<Rightarrow> s)"

text \<open>The tile under the pointer, as the \<^verbatim>\<open>EVENT_MOUSE_MOVE\<close> branch computes it.\<close>

definition mouseTile :: "TileView \<Rightarrow> int \<Rightarrow> int \<Rightarrow> float Vec3" where
  "mouseTile s X Y =
    (let screenOffset = Vec2 (float_of_int (x2 (getScreenOffset s)))
                             (float_of_int (y2 (getScreenOffset s)))
     in screenToTileCoords s
          (sub2 (Vec2 (float_of_int X)
                      (fsub (fadd (float_of_int Y) (Finite 4)) (Finite 20)))
                screenOffset)
          (float_of_int (currentZLevel s - 1)) (viewMode s))"

text \<open>
  The new centre a primary finger drag asks for. A zero tile size makes the quotients
  infinite or NaN.
\<close>

definition fingerPos :: "TileView \<Rightarrow> float \<Rightarrow> float \<Rightarrow> float Vec3" where
  "fingerPos s DeltaX DeltaY =
    (let deltaPos =
           (if viewMode s = Isometric
            then (let dx = fdiv DeltaX (float_of_int (x3 (isoTileSize s)));
                      dy = fdiv DeltaY (float_of_int (y3 (isoTileSize s)))
                  in Vec3 (fadd dx dy) (fsub dy dx) (Finite 0))
            else Vec3 (fdiv DeltaX (float_of_int (x2 (stratTileSize s))))
                      (fdiv DeltaY (float_of_int (y2 (stratTileSize s)))) (Finite 0))
     in sub3 (centerPos s) deltaPos)"

text \<open>\<^verbatim>\<open>TileView::eventOccurred\<close>.\<close>

definition eventOccurred :: "Event \<Rightarrow> TileView \<Rightarrow> TileView" where
  "eventOccurred e s =
    (case e of
       EVENT_KEY_DOWN k \<Rightarrow> keyDown k s
     | EVENT_KEY_UP k \<Rightarrow> keyUp k s
     | EVENT_MOUSE_MOVE X Y \<Rightarrow> setSelectedTilePosition (to_int3 (mouseTile s X Y)) s
     | EVENT_FINGER_MOVE IsPrimary DeltaX DeltaY \<Rightarrow>
         (if IsPrimary then setScreenCenterTile (fingerPos s DeltaX DeltaY) s else s)
     | EVENT_OTHER \<Rightarrow> s)"

section \<open>Rendering\<close>

subsection \<open>Camera update of a frame\<close>

definition isoScroll :: "TileView \<Rightarrow> float Vec3 \<Rightarrow> float Vec3" where
  "isoScroll s p0 =
    (let sx = x2 (isoScrollSpeed s); sy = y2 (isoScrollSpeed s);
         p1 = (if scrollLeft s
               then Vec3 (fsub (x3 p0) sx) (fadd (y3 p0) sy) (z3 p0) else p0);
         p2 = (if scrollRight s
               then Vec3 (fadd (x3 p1) sx) (fsub (y3 p1) sy) (z3 p1) else p1);
         p3 = (if scrollUp s
               then Vec3 (fsub (x3 p2) sx) (fsub (y3 p2) sy) (z3 p2) else p2);
         p4 = (if scrollDown s
               then Vec3 (fadd (x3 p3) sx) (fadd (y3 p3) sy) (z3 p3) else p3)
     in p4)"

definition stratScroll :: "TileView \<Rightarrow> float Vec3 \<Rightarrow> float Vec3" where
  "stratScroll s p0 =
    (let sx = x2 (stratScrollSpeed s); sy = y2 (stratScrollSpeed s);
         p1 = (if scrollLeft s then Vec3 (fsub (x3 p0) sx) (y3 p0) (z3 p0) else p0);
         p2 = (if scrollRight s then Vec3 (fadd (x3 p1) sx) (y3 p1) (z3 p1) else p1);
         p3 = (if scrollUp s then Vec3 (x3 p2) (fsub (y3 p2) sy) (z3 p2) else p2);
         p4 = (if scrollDown s then Vec3 (x3 p3) (fadd (y3 p3) sy) (z3 p3) else p3)
     in p4)"

text \<open>
  The first part of \<^verbatim>\<open>TileView::render\<close>: clear, set the palette, move the centre
  by the scroll flags in the current view mode, clamp it.
\<close>

definition renderCamera :: "TileView \<Rightarrow> TileView" where
  "renderCamera s =
    (let s1 = emit [RendererClear, RendererSetPalette (pal s)] s;
         newPos = centerPos s1
     in if viewMode s1 = Isometric then setScreenCenterTile (isoScroll s1 newPos) s1
        else if viewMode s1 = Strategy then setScreenCenterTile (stratScroll s1 newPos) s1
        else setScreenCenterTile newPos (emit [LogMsg LevelError ''Unknown view mode''] s1))"

subsection \<open>Visible rectangle and levels\<close>

record DrawBounds =
  minX :: int
  maxX :: int
  minY :: int
  maxY :: int

definition visibleBounds :: "TileView \<Rightarrow> DrawBounds" where
  "visibleBounds s =
    (let iso = isoTileSize s; dpy = dpySize s; sz = map_size (tilemap s);
         topLeft = offsetScreenToTileCoords s (Vec2 (- x3 iso) (- y3 iso)) 0;
         topRight = offsetScreenToTileCoords s (Vec2 (x2 dpy) (- y3 iso)) 0;
         bottomLeft = offsetScreenToTileCoords s (Vec2 (- x3 iso) (y2 dpy)) (z3 sz);
         bottomRight = offsetScreenToTileCoords s (Vec2 (x2 dpy) (y2 dpy)) (z3 sz)
     in \<lparr> minX = max 0 (x3 topLeft), maxX = min (x3 sz) (x3 bottomRight),
          minY = max 0 (y3 topRight), maxY = min (y3 sz) (y3 bottomLeft) \<rparr>)"

text \<open>
  \<open>zFrom\<close> and \<open>zTo\<close>: initialised to \<open>0\<close> and \<open>maxZDraw\<close>, then set by the switch,
  which has no default branch.
\<close>

definition zRange :: "TileView \<Rightarrow> int \<times> int" where
  "zRange s =
    (case layerDrawingMode s of
       UpToCurrentLevel \<Rightarrow> (0, currentZLevel s)
     | AllLevels \<Rightarrow> (0, maxZDraw s)
     | OnlyCurrentLevel \<Rightarrow> (currentZLevel s - 1, currentZLevel s)
     | UnknownLayerDrawingMode n \<Rightarrow> (0, maxZDraw s))"

subsection \<open>Selection bracket of a level\<close>

text \<open>
  \<^verbatim>\<open>tile->drawnObjects[layer]\<close>; the code never indexes outside the vector as long
  as every tile has \<open>getLayerCount\<close> layers, the empty list stands for the rest.
\<close>

definition layerObjects :: "Tile \<Rightarrow> int \<Rightarrow> TileObject list" where
  "layerObjects t layer =
    (if 0 \<le> layer \<and> nat layer < length (drawnObjects t)
     then drawnObjects t ! nat layer else [])"

text \<open>The loop that finds the first object that is not ground.\<close>

fun findDrawBack :: "TileObject option \<Rightarrow> TileObject list \<Rightarrow> TileObject option" where
  "findDrawBack drawBackBeforeThis [] = drawBackBeforeThis"
| "findDrawBack drawBackBeforeThis (obj # objs) =
     findDrawBack (if drawBackBeforeThis = None \<and> getType obj \<noteq> Ground
                   then Some obj else drawBackBeforeThis) objs"

text \<open>The loop over the intersecting objects that looks for a unit.\<close>

fun findUnit :: "bool \<Rightarrow> TileObject list \<Rightarrow> bool" where
  "findUnit foundUnit [] = foundUnit"
| "findUnit foundUnit (obj # objs) =
     findUnit (if getType obj = Unit then True else foundUnit) objs"

record Selection =
  selTilePosOnCurLevel :: "int Vec3"
  drawBackBeforeThis :: "TileObject option"
  selectionImageBack :: "Image option"
  selectionImageFront :: "Image option"

text \<open>
  The head of the loop over \<open>z\<close>: \<open>None\<close> when \<^verbatim>\<open>selTileOnCurLevel\<close> stays null.
\<close>

definition levelSelection :: "TileView \<Rightarrow> DrawBounds \<Rightarrow> int \<Rightarrow> Selection option" where
  "levelSelection s b z =
    (let sel = selectedTilePosition s
     in if mode s = Battle \<and> viewMode s = Isometric
        then if z3 sel \<ge> z \<and> x3 sel \<ge> minX b \<and> x3 sel < maxX b
                \<and> y3 sel \<ge> minY b \<and> y3 sel < maxY b
             then (let pos = Vec3 (x3 sel) (y3 sel) z;
                       selTile = getTile (tilemap s) (x3 pos) (y3 pos) (z3 pos);
                       back = findDrawBack None (layerObjects selTile 0)
                   in if z3 sel = z
                      then if findUnit False (intersectingObjects selTile)
                           then Some \<lparr> selTilePosOnCurLevel = pos, drawBackBeforeThis = back,
                                  selectionImageBack = selectedTileFilledImageBack s,
                                  selectionImageFront = selectedTileFilledImageFront s \<rparr>
                           else Some \<lparr> selTilePosOnCurLevel = pos, drawBackBeforeThis = back,
                                  selectionImageBack = selectedTileEmptyImageBack s,
                                  selectionImageFront = selectedTileEmptyImageFront s \<rparr>
                      else Some \<lparr> selTilePosOnCurLevel = pos, drawBackBeforeThis = back,
                             selectionImageBack = selectedTileBackgroundImageBack s,
                             selectionImageFront = selectedTileBackgroundImageFront s \<rparr>)
             else None
        else None)"

subsection \<open>Drawing a tile\<close>

definition selectionPos :: "TileView \<Rightarrow> Selection \<Rightarrow> float Vec2" where
  "selectionPos s sel =
    sub2 (tileToOffsetScreenCoords s (to_float3 (selTilePosOnCurLevel sel)))
         (to_float2 (selectedTileImageOffset s))"

definition drawObject :: "TileView \<Rightarrow> int \<Rightarrow> TileObject \<Rightarrow> effect" where
  "drawObject s currentLevel obj =
    DrawObject obj (tileToOffsetScreenCoords s (getPosition obj)) (viewMode s) currentLevel"

text \<open>The object loop of an ordinary tile.\<close>

fun drawObjects :: "TileView \<Rightarrow> int \<Rightarrow> TileObject list \<Rightarrow> effect list" where
  "drawObjects s currentLevel [] = []"
| "drawObjects s currentLevel (obj # objs) =
     drawObject s currentLevel obj # drawObjects s currentLevel objs"

text \<open>The object loop of the selected tile on layer 0, with the back image in between.\<close>

fun drawObjectsSelected ::
  "TileView \<Rightarrow> Selection \<Rightarrow> int \<Rightarrow> TileObject list \<Rightarrow> effect list" where
  "drawObjectsSelected s sel currentLevel [] = []"
| "drawObjectsSelected s sel currentLevel (obj # objs) =
     (if (case drawBackBeforeThis sel of None \<Rightarrow> False | Some d \<Rightarrow> oid obj = oid d)
      then [DrawImage (selectionImageBack sel) (selectionPos s sel)] else [])
     @ drawObject s currentLevel obj # drawObjectsSelected s sel currentLevel objs"

text \<open>
  The body of the innermost loop. \<^verbatim>\<open>tile == selTileOnCurLevel\<close> compares addresses
  of tiles of the map, which are equal exactly for equal coordinates.
\<close>

definition drawTile ::
  "TileView \<Rightarrow> Selection option \<Rightarrow> int \<Rightarrow> int \<Rightarrow> int \<Rightarrow> int \<Rightarrow> effect list" where
  "drawTile s selection z layer y x =
    (let tile = getTile (tilemap s) x y z; currentLevel = z - currentZLevel s
     in case selection of
          None \<Rightarrow> drawObjects s currentLevel (layerObjects tile layer)
        | Some sel \<Rightarrow>
            if Vec3 x y z = selTilePosOnCurLevel sel \<and> layer = 0
            then drawObjectsSelected s sel currentLevel (layerObjects tile layer)
                 @ (if drawBackBeforeThis sel = None
                    then [DrawImage (selectionImageBack sel) (selectionPos s sel)] else [])
                 @ [DrawImage (selectionImageFront sel) (selectionPos s sel)]
            else drawObjects s currentLevel (layerObjects tile layer))"

subsection \<open>The loops\<close>

text \<open>
  \<^verbatim>\<open>for (int i = from; i < to; i++) body\<close>, for a body that only draws. The four
  nested loops of \<^verbatim>\<open>render\<close> have this shape.
\<close>

function forLoop :: "int \<Rightarrow> int \<Rightarrow> (int \<Rightarrow> effect list) \<Rightarrow> effect list" where
  "forLoop i to body = (if i < to then body i @ forLoop (i + 1) to body else [])"
  by pat_completeness auto
termination
  by (relation "measure (\<lambda>(i, to, body). nat (to - i))") auto

declare forLoop.simps [simp del]

definition renderLevels :: "TileView \<Rightarrow> effect list" where
  "renderLevels s =
    (let b = visibleBounds s; (zFrom, zTo) = zRange s
     in forLoop zFrom zTo (\<lambda>z.
          let selection = levelSelection s b z
          in forLoop 0 (getLayerCount (tilemap s)) (\<lambda>layer.
               forLoop (minY b) (maxY b) (\<lambda>y.
                 forLoop (minX b) (maxX b) (\<lambda>x.
                   drawTile s selection z layer y x)))))"

subsection \<open>Strategy view box\<close>

definition strategyBox :: "TileView \<Rightarrow> effect list" where
  "strategyBox s =
    (let c = tileToScreenCoords s
               (Vec3 (x3 (centerPos s)) (y3 (centerPos s)) (Finite 0)) Isometric;
         hx = float_of_int (cdiv (x2 (dpySize s)) 2);
         hy = float_of_int (cdiv (y2 (dpySize s)) 2);
         corner = (\<lambda>p. tileToOffsetScreenCoords s
                           (screenToTileCoords s p (Finite 0) Isometric));
         topLeftRectPos = corner (Vec2 (fsub (x2 c) hx) (fsub (y2 c) hy));
         topRightRectPos = corner (Vec2 (fadd (x2 c) hx) (fsub (y2 c) hy));
         bottomLeftRectPos = corner (Vec2 (fsub (x2 c) hx) (fadd (y2 c) hy));
         bottomRightRectPos = corner (Vec2 (fadd (x2 c) hx) (fadd (y2 c) hy))
     in [DrawLine topLeftRectPos topRightRectPos,
         DrawLine topRightRectPos bottomRightRectPos,
         DrawLine bottomRightRectPos bottomLeftRectPos,
         DrawLine bottomLeftRectPos topLeftRectPos])"

text \<open>\<^verbatim>\<open>TileView::render\<close>.\<close>

definition render :: "TileView \<Rightarrow> TileView" where
  "render s =
    (let s1 = renderCamera s;
         s2 = emit (renderLevels s1) s1
     in if viewMode s2 = Strategy then emit (strategyBox s2) s2 else s2)"

section \<open>Sessions\<close>

text \<open>
  A session is a constructed tile view and the calls made on it through its public
  interface, in order.
\<close>

datatype Call =
    CallRender
  | CallEventOccurred Event
  | CallSetZLevel int
  | CallSetLayerDrawingMode LayerDrawingMode
  | CallSetViewMode TileViewMode
  | CallSetScreenCenterTile "float Vec3"
  | CallSetScreenCenterTile2 "float Vec2"
  | CallSetSelectedTilePosition "int Vec3"

fun call :: "Call \<Rightarrow> TileView \<Rightarrow> TileView" where
  "call CallRender s = render s"
| "call (CallEventOccurred e) s = eventOccurred e s"
| "call (CallSetZLevel v) s = setZLevel v s"
| "call (CallSetLayerDrawingMode m) s = setLayerDrawingMode m s"
| "call (CallSetViewMode v) s = setViewMode v s"
| "call (CallSetScreenCenterTile c) s = setScreenCenterTile c s"
| "call (CallSetScreenCenterTile2 c) s = setScreenCenterTile2 c s"
| "call (CallSetSelectedTilePosition p) s = setSelectedTilePosition p s"

fun calls :: "Call list \<Rightarrow> TileView \<Rightarrow> TileView" where
  "calls [] s = s"
| "calls (c # cs) s = calls cs (call c s)"

fun isSetViewMode :: "Call \<Rightarrow> bool" where
  "isSetViewMode (CallSetViewMode v) = True"
| "isSetViewMode _ = False"

section \<open>The properties the specification states\<close>

subsection \<open>Bounds\<close>


definition nonEmptyMap :: "TileMap \<Rightarrow> bool" where
  "nonEmptyMap m = (1 \<le> x3 (map_size m) \<and> 1 \<le> y3 (map_size m) \<and> 1 \<le> z3 (map_size m))"

definition posInBounds :: "int Vec3 \<Rightarrow> float Vec3 \<Rightarrow> bool" where
  "posInBounds sz c =
    (fle (Finite 0) (x3 c) \<and> fle (x3 c) (float_of_int (x3 sz))
     \<and> fle (Finite 0) (y3 c) \<and> fle (y3 c) (float_of_int (y3 sz))
     \<and> fle (Finite 0) (z3 c) \<and> fle (z3 c) (float_of_int (z3 sz)))"

definition centerInBounds :: "TileView \<Rightarrow> bool" where
  "centerInBounds s = posInBounds (map_size (tilemap s)) (centerPos s)"

definition selectedInBounds :: "TileView \<Rightarrow> bool" where
  "selectedInBounds s =
    (let p = selectedTilePosition s; sz = map_size (tilemap s)
     in 0 \<le> x3 p \<and> x3 p \<le> x3 sz - 1 \<and> 0 \<le> y3 p \<and> y3 p \<le> y3 sz - 1
        \<and> 0 \<le> z3 p \<and> z3 p \<le> z3 sz - 1)"

definition clampCenter :: "int Vec3 \<Rightarrow> float Vec3 \<Rightarrow> float Vec3" where
  "clampCenter sz c =
    Vec3 (clampCenterAxis (x3 c) (x3 sz)) (clampCenterAxis (y3 c) (y3 sz))
         (clampCenterAxis (z3 c) (z3 sz))"

text \<open>
  What the clamp needs of its input: no NaN component. Scrolling and dragging keep it so
  when the scroll speeds and the drag deltas are numbers and no tile size is zero.
\<close>

definition notNaN :: "float \<Rightarrow> bool" where
  "notNaN a = (a \<noteq> NaN)"


definition isFinite :: "float \<Rightarrow> bool" where
  "isFinite a = (case a of Finite r \<Rightarrow> True | _ \<Rightarrow> False)"




subsection \<open>Pointer selection\<close>

text \<open>
  The pointer-move selection in the words of the specification: the device coordinates,
  adjusted in y by the fixed vertical offset, relative to the screen offset, transformed
  back at the plane of the current z-level minus one, taken to integers and clamped to
  the tiles of the map.
\<close>

definition pointerYOffset :: float where
  "pointerYOffset = Finite (4 - 20)"

definition clampToMap :: "int Vec3 \<Rightarrow> int Vec3 \<Rightarrow> int Vec3" where
  "clampToMap sz t =
    Vec3 (min (x3 sz - 1) (max 0 (x3 t))) (min (y3 sz - 1) (max 0 (y3 t)))
         (min (z3 sz - 1) (max 0 (z3 t)))"

definition specPointerTile :: "TileView \<Rightarrow> int \<Rightarrow> int \<Rightarrow> int Vec3" where
  "specPointerTile s X Y =
    (let device = Vec2 (float_of_int X) (float_of_int Y);
         adjusted = Vec2 (x2 device) (fadd (y2 device) pointerYOffset);
         relative = sub2 adjusted (to_float2 (getScreenOffset s));
         tile = screenToTileCoords s relative (float_of_int (currentZLevel s - 1))
                  (viewMode s)
     in clampToMap (map_size (tilemap s)) (to_int3 tile))"

subsection \<open>Strategy scrolling\<close>

text \<open>
  The strategy scroll step in the words of the specification: the centre advanced along
  the x axis by the strategy speed for right minus left, along the y axis for down minus
  up.
\<close>

definition scaled :: "bool \<Rightarrow> float \<Rightarrow> float" where
  "scaled b v = (if b then v else Finite 0)"

definition specStrategyAdvance :: "TileView \<Rightarrow> float Vec3" where
  "specStrategyAdvance s =
    Vec3 (fadd (x3 (centerPos s))
               (fsub (scaled (scrollRight s) (x2 (stratScrollSpeed s)))
                     (scaled (scrollLeft s) (x2 (stratScrollSpeed s)))))
         (fadd (y3 (centerPos s))
               (fsub (scaled (scrollDown s) (y2 (stratScrollSpeed s)))
                     (scaled (scrollUp s) (y2 (stratScrollSpeed s)))))
         (z3 (centerPos s))"

subsection \<open>What a trace shows\<close>

text \<open>The objects drawn, the images drawn and the messages logged, in order.\<close>

fun drawnObject :: "effect \<Rightarrow> TileObject list" where
  "drawnObject (DrawObject obj pos vm lvl) = [obj]"
| "drawnObject _ = []"

definition objectsDrawn :: "effect list \<Rightarrow> TileObject list" where
  "objectsDrawn es = concat (map drawnObject es)"

fun drawnImage :: "effect \<Rightarrow> Image option list" where
  "drawnImage (DrawImage img pos) = [img]"
| "drawnImage _ = []"

definition imagesDrawn :: "effect list \<Rightarrow> Image option list" where
  "imagesDrawn es = concat (map drawnImage es)"

definition logOf :: "effect \<Rightarrow> (LogLevel \<times> string) list" where
  "logOf e = (case e of LogMsg l m \<Rightarrow> [(l, m)] | _ \<Rightarrow> [])"

definition logsOf :: "effect list \<Rightarrow> (LogLevel \<times> string) list" where
  "logsOf es = concat (map logOf es)"

subsection \<open>Drawing order\<close>



subsection \<open>Selection bracket\<close>

text \<open>
  The choice of the selection bracket. \<open>claimedHighlight\<close> is the policy as the
  specification words it (background on the level one behind the selected one);
  \<open>codeHighlight\<close> is the policy with the background on every level below the selected
  one, for a selection that is shown at all.
\<close>

datatype HighlightKind = Filled | Empty | Background

definition highlightImages :: "TileView \<Rightarrow> HighlightKind \<Rightarrow> Image option \<times> Image option" where
  "highlightImages s k =
    (case k of
       Filled \<Rightarrow> (selectedTileFilledImageBack s, selectedTileFilledImageFront s)
     | Empty \<Rightarrow> (selectedTileEmptyImageBack s, selectedTileEmptyImageFront s)
     | Background \<Rightarrow> (selectedTileBackgroundImageBack s, selectedTileBackgroundImageFront s))"

definition unitIntersects :: "TileView \<Rightarrow> int \<Rightarrow> bool" where
  "unitIntersects s z =
    (Unit \<in> set (map getType (intersectingObjects
       (getTile (tilemap s) (x3 (selectedTilePosition s)) (y3 (selectedTilePosition s)) z))))"

definition claimedHighlight :: "TileView \<Rightarrow> int \<Rightarrow> HighlightKind option" where
  "claimedHighlight s z =
    (if z = z3 (selectedTilePosition s)
     then (if unitIntersects s z then Some Filled else Some Empty)
     else if z = z3 (selectedTilePosition s) - 1 then Some Background
     else None)"

definition selectionShown :: "TileView \<Rightarrow> DrawBounds \<Rightarrow> bool" where
  "selectionShown s b =
    (mode s = Battle \<and> viewMode s = Isometric
     \<and> minX b \<le> x3 (selectedTilePosition s) \<and> x3 (selectedTilePosition s) < maxX b
     \<and> minY b \<le> y3 (selectedTilePosition s) \<and> y3 (selectedTilePosition s) < maxY b)"

definition codeHighlight :: "TileView \<Rightarrow> DrawBounds \<Rightarrow> int \<Rightarrow> HighlightKind option" where
  "codeHighlight s b z =
    (if selectionShown s b
     then (if z = z3 (selectedTilePosition s)
           then (if unitIntersects s z then Some Filled else Some Empty)
           else if z < z3 (selectedTilePosition s) then Some Background
           else None)
     else None)"

definition chosenImages :: "TileView \<Rightarrow> DrawBounds \<Rightarrow> int \<Rightarrow> (Image option \<times> Image option) option" where
  "chosenImages s b z =
    map_option (\<lambda>sel. (selectionImageBack sel, selectionImageFront sel)) (levelSelection s b z)"

section \<open>Example views\<close>

text \<open>
  The map of the scenarios of the specification, of size (10,10,5) with tiles of size
  (32,16,8), empty.
\<close>

definition exampleMap :: TileMap where
  "exampleMap = \<lparr> map_size = Vec3 10 10 5,
                   getTile = (\<lambda>x y z. \<lparr> drawnObjects = [[]], intersectingObjects = [] \<rparr>),
                   getLayerCount = 1 \<rparr>"

definition exampleView :: "Mode \<Rightarrow> TileView" where
  "exampleView md =
    TileView_new exampleMap (Vec3 32 16 8) (Vec2 8 8) Isometric md (Vec2 640 480) AllLevels"

text \<open>
  A small battle map, two tiles wide and three levels high, with one ground object on
  every tile; the object at \<open>(x, 0, z)\<close> has identity \<open>2 * z + x\<close>.
\<close>

definition smallMap :: TileMap where
  "smallMap = \<lparr> map_size = Vec3 2 1 3,
      getTile = (\<lambda>x y z.
        \<lparr> drawnObjects =
            [[\<lparr> oid = nat (2 * z + x), getType = Ground,
                getPosition = to_float3 (Vec3 x y z) \<rparr>]],
          intersectingObjects = [] \<rparr>),
      getLayerCount = 1 \<rparr>"

definition smallView :: TileView where
  "smallView =
    TileView_new smallMap (Vec3 32 16 8) (Vec2 8 8) Isometric Battle (Vec2 640 480) AllLevels"

text \<open>The small battle view with the tile (0,0,2) selected and three levels drawn.\<close>

definition deepSelection :: TileView where
  "deepSelection = setZLevel 3 (setSelectedTilePosition (Vec3 0 0 2) smallView)"

text \<open>Views whose layer-drawing mode, or view mode, is outside the enumeration.\<close>

definition unknownLayers :: TileView where
  "unknownLayers = setLayerDrawingMode (UnknownLayerDrawingMode 7) smallView"

definition unknownView :: TileView where
  "unknownView =
    eventOccurred (EVENT_KEY_DOWN SDLK_RIGHT) (setViewMode (UnknownViewMode 5) smallView)"



section \<open>What the operations leave unchanged\<close>

lemma emit_fields [simp]:
  "tilemap (emit es s) = tilemap s"
  "isoTileSize (emit es s) = isoTileSize s"
  "stratTileSize (emit es s) = stratTileSize s" "mode (emit es s) = mode s"
  "maxZDraw (emit es s) = maxZDraw s" "viewMode (emit es s) = viewMode s"
  "centerPos (emit es s) = centerPos s"
  "selectedTilePosition (emit es s) = selectedTilePosition s"
  "currentZLevel (emit es s) = currentZLevel s"
  "layerDrawingMode (emit es s) = layerDrawingMode s"
  "scrollUp (emit es s) = scrollUp s" "scrollDown (emit es s) = scrollDown s"
  "scrollLeft (emit es s) = scrollLeft s" "scrollRight (emit es s) = scrollRight s"
  "stratScrollSpeed (emit es s) = stratScrollSpeed s"
  "isoScrollSpeed (emit es s) = isoScrollSpeed s"
  "fw_trace (emit es s) = fw_trace s @ es"
  by (simp_all add: emit_def)

lemma setScreenCenterTile_fields [simp]:
  "tilemap (setScreenCenterTile c s) = tilemap s"
  "isoTileSize (setScreenCenterTile c s) = isoTileSize s"
  "stratTileSize (setScreenCenterTile c s) = stratTileSize s" "mode (setScreenCenterTile c s) = mode s"
  "maxZDraw (setScreenCenterTile c s) = maxZDraw s"
  "viewMode (setScreenCenterTile c s) = viewMode s"
  "selectedTilePosition (setScreenCenterTile c s) = selectedTilePosition s"
  "currentZLevel (setScreenCenterTile c s) = currentZLevel s"
  "layerDrawingMode (setScreenCenterTile c s) = layerDrawingMode s"
  "stratScrollSpeed (setScreenCenterTile c s) = stratScrollSpeed s"
  "isoScrollSpeed (setScreenCenterTile c s) = isoScrollSpeed s"
  by (simp_all add: setScreenCenterTile_def Let_def)

lemma setSelectedTilePosition_fields [simp]:
  "tilemap (setSelectedTilePosition p s) = tilemap s"
  "isoTileSize (setSelectedTilePosition p s) = isoTileSize s"
  "stratTileSize (setSelectedTilePosition p s) = stratTileSize s"
  "isoScrollSpeed (setSelectedTilePosition p s) = isoScrollSpeed s"
  "mode (setSelectedTilePosition p s) = mode s"
  "maxZDraw (setSelectedTilePosition p s) = maxZDraw s"
  "viewMode (setSelectedTilePosition p s) = viewMode s"
  "centerPos (setSelectedTilePosition p s) = centerPos s"
  "currentZLevel (setSelectedTilePosition p s) = currentZLevel s"
  "layerDrawingMode (setSelectedTilePosition p s) = layerDrawingMode s"
  "stratScrollSpeed (setSelectedTilePosition p s) = stratScrollSpeed s"
  "fw_trace (setSelectedTilePosition p s) = fw_trace s"
  by (simp_all add: setSelectedTilePosition_def Let_def)

lemma renderCamera_fields [simp]:
  "tilemap (renderCamera s) = tilemap s"
  "isoTileSize (renderCamera s) = isoTileSize s"
  "stratTileSize (renderCamera s) = stratTileSize s"
  "isoScrollSpeed (renderCamera s) = isoScrollSpeed s" "mode (renderCamera s) = mode s"
  "maxZDraw (renderCamera s) = maxZDraw s" "viewMode (renderCamera s) = viewMode s"
  "selectedTilePosition (renderCamera s) = selectedTilePosition s"
  "currentZLevel (renderCamera s) = currentZLevel s"
  "layerDrawingMode (renderCamera s) = layerDrawingMode s"
  "stratScrollSpeed (renderCamera s) = stratScrollSpeed s"
  by (simp_all add: renderCamera_def Let_def)

lemma render_fields [simp]:
  "tilemap (render s) = tilemap s"
  "isoTileSize (render s) = isoTileSize s"
  "stratTileSize (render s) = stratTileSize s"
  "isoScrollSpeed (render s) = isoScrollSpeed s" "mode (render s) = mode s"
  "maxZDraw (render s) = maxZDraw s" "viewMode (render s) = viewMode s"
  "selectedTilePosition (render s) = selectedTilePosition s"
  "currentZLevel (render s) = currentZLevel s"
  "layerDrawingMode (render s) = layerDrawingMode s"
  "stratScrollSpeed (render s) = stratScrollSpeed s"
  "centerPos (render s) = centerPos (renderCamera s)"
  by (simp_all add: render_def Let_def)

lemma keyDown_fields [simp]:
  "tilemap (keyDown k s) = tilemap s"
  "isoTileSize (keyDown k s) = isoTileSize s"
  "stratTileSize (keyDown k s) = stratTileSize s"
  "isoScrollSpeed (keyDown k s) = isoScrollSpeed s" "mode (keyDown k s) = mode s"
  "maxZDraw (keyDown k s) = maxZDraw s" "viewMode (keyDown k s) = viewMode s"
  "centerPos (keyDown k s) = centerPos s"
  "currentZLevel (keyDown k s) = currentZLevel s"
  "layerDrawingMode (keyDown k s) = layerDrawingMode s"
  "stratScrollSpeed (keyDown k s) = stratScrollSpeed s"
  by (cases k; simp add: keyDown_def setSel_def Let_def)+

lemma keyUp_fields [simp]:
  "tilemap (keyUp k s) = tilemap s"
  "isoTileSize (keyUp k s) = isoTileSize s"
  "stratTileSize (keyUp k s) = stratTileSize s"
  "isoScrollSpeed (keyUp k s) = isoScrollSpeed s" "mode (keyUp k s) = mode s"
  "maxZDraw (keyUp k s) = maxZDraw s" "viewMode (keyUp k s) = viewMode s"
  "centerPos (keyUp k s) = centerPos s"
  "selectedTilePosition (keyUp k s) = selectedTilePosition s"
  "currentZLevel (keyUp k s) = currentZLevel s"
  "layerDrawingMode (keyUp k s) = layerDrawingMode s"
  "stratScrollSpeed (keyUp k s) = stratScrollSpeed s"
  by (cases k; simp add: keyUp_def)+

lemma eventOccurred_fields [simp]:
  "tilemap (eventOccurred e s) = tilemap s"
  "isoTileSize (eventOccurred e s) = isoTileSize s"
  "stratTileSize (eventOccurred e s) = stratTileSize s"
  "isoScrollSpeed (eventOccurred e s) = isoScrollSpeed s" "mode (eventOccurred e s) = mode s"
  "maxZDraw (eventOccurred e s) = maxZDraw s" "viewMode (eventOccurred e s) = viewMode s"
  "currentZLevel (eventOccurred e s) = currentZLevel s"
  "layerDrawingMode (eventOccurred e s) = layerDrawingMode s"
  "stratScrollSpeed (eventOccurred e s) = stratScrollSpeed s"
  by (cases e; simp add: eventOccurred_def)+

lemma setZLevel_fields [simp]:
  "tilemap (setZLevel v s) = tilemap s"
  "isoTileSize (setZLevel v s) = isoTileSize s"
  "stratTileSize (setZLevel v s) = stratTileSize s"
  "isoScrollSpeed (setZLevel v s) = isoScrollSpeed s" "mode (setZLevel v s) = mode s"
  "maxZDraw (setZLevel v s) = maxZDraw s" "viewMode (setZLevel v s) = viewMode s"
  "selectedTilePosition (setZLevel v s) = selectedTilePosition s"
  "layerDrawingMode (setZLevel v s) = layerDrawingMode s"
  "stratScrollSpeed (setZLevel v s) = stratScrollSpeed s"
  "currentZLevel (setZLevel v s) = clamp v 1 (maxZDraw s)"
  by (simp_all add: setZLevel_def Let_def)

lemma call_fields [simp]:
  "tilemap (call c s) = tilemap s"
  "isoTileSize (call c s) = isoTileSize s"
  "stratTileSize (call c s) = stratTileSize s"
  "isoScrollSpeed (call c s) = isoScrollSpeed s" "mode (call c s) = mode s"
  "maxZDraw (call c s) = maxZDraw s"
  "stratScrollSpeed (call c s) = stratScrollSpeed s"
  by (cases c; simp add: setLayerDrawingMode_def setViewMode_def setScreenCenterTile2_def)+

lemma calls_fields [simp]:
  "tilemap (calls cs s) = tilemap s"
  "isoTileSize (calls cs s) = isoTileSize s"
  "stratTileSize (calls cs s) = stratTileSize s"
  "isoScrollSpeed (calls cs s) = isoScrollSpeed s" "mode (calls cs s) = mode s"
  "maxZDraw (calls cs s) = maxZDraw s"
  "stratScrollSpeed (calls cs s) = stratScrollSpeed s"
  by (induction cs arbitrary: s; simp)+

lemma TileView_new_fields [simp]:
  "tilemap (TileView_new m i st v md d u) = m"
  "mode (TileView_new m i st v md d u) = md"
  "maxZDraw (TileView_new m i st v md d u) = z3 (map_size m)"
  "centerPos (TileView_new m i st v md d u) = Vec3 (Finite 0) (Finite 0) (Finite 0)"
  "selectedTilePosition (TileView_new m i st v md d u) = Vec3 0 0 0"
  "currentZLevel (TileView_new m i st v md d u) = 1"
  "viewMode (TileView_new m i st v md d u) = v"
  "isoTileSize (TileView_new m i st v md d u) = i"
  "stratTileSize (TileView_new m i st v md d u) = st"
  "stratScrollSpeed (TileView_new m i st v md d u) = Vec2 (Finite 2) (Finite 2)"
  "isoScrollSpeed (TileView_new m i st v md d u) = Vec2 (Finite 0.5) (Finite 0.5)"
  by (cases md; simp add: TileView_new_def emit_def Let_def)+

section \<open>Facts about the floating-point operations\<close>

lemma notNaN_simps [simp]:
  "notNaN (Finite r)" "notNaN PInf" "notNaN NInf" "\<not> notNaN NaN"
  "notNaN (float_of_int n)"
  by (simp_all add: notNaN_def float_of_int_def)

lemma isFinite_simps [simp]:
  "isFinite (Finite r)" "\<not> isFinite PInf" "\<not> isFinite NInf" "\<not> isFinite NaN"
  "isFinite (float_of_int n)"
  by (simp_all add: isFinite_def float_of_int_def)

lemma fsub_Finite [simp]: "fsub (Finite a) (Finite b) = Finite (a - b)"
  by (simp add: fsub_def)




lemma isoScroll_emit [simp]: "isoScroll (emit es s) p = isoScroll s p"
  by (simp add: isoScroll_def)

lemma stratScroll_emit [simp]: "stratScroll (emit es s) p = stratScroll s p"
  by (simp add: stratScroll_def)

section \<open>The camera centre stays on the map\<close>




















lemma exampleView_map [simp]: "tilemap (exampleView md) = exampleMap"
  by (simp add: exampleView_def)

lemma exampleMap_size [simp]: "map_size exampleMap = Vec3 10 10 5"
  by (simp add: exampleMap_def)



section \<open>The selected tile stays on the map\<close>

lemma clampSelAxis_bounds: "1 \<le> n \<Longrightarrow> 0 \<le> clampSelAxis v n \<and> clampSelAxis v n < n"
  by (simp add: clampSelAxis_def Let_def)

lemma setSelectedTilePosition_inBounds:
  "nonEmptyMap (tilemap s) \<Longrightarrow> selectedInBounds (setSelectedTilePosition p s)"
  by (simp add: selectedInBounds_def nonEmptyMap_def setSelectedTilePosition_def Let_def
      clampSelAxis_bounds)

lemma selectedInBounds_cong:
  "selectedTilePosition t = selectedTilePosition s \<Longrightarrow> tilemap t = tilemap s
   \<Longrightarrow> selectedInBounds t = selectedInBounds s"
  by (simp add: selectedInBounds_def)

lemma keyDown_selInBounds: "selectedInBounds s \<Longrightarrow> selectedInBounds (keyDown k s)"
  by (cases k) (auto simp add: keyDown_def setSel_def emit_def Let_def selectedInBounds_def)

lemma eventOccurred_selInBounds:
  "nonEmptyMap (tilemap s) \<Longrightarrow> selectedInBounds s \<Longrightarrow> selectedInBounds (eventOccurred e s)"
  by (cases e) (simp_all add: eventOccurred_def setSelectedTilePosition_inBounds
      keyDown_selInBounds selectedInBounds_cong [of "keyUp k s" s for k]
      selectedInBounds_cong [of "setScreenCenterTile p s" s for p])

lemma call_selInBounds:
  "nonEmptyMap (tilemap s) \<Longrightarrow> selectedInBounds s \<Longrightarrow> selectedInBounds (call c s)"
proof (cases c)
  case (CallSetLayerDrawingMode m)
  assume "selectedInBounds s"
  then show ?thesis
    using CallSetLayerDrawingMode by (simp add: setLayerDrawingMode_def selectedInBounds_def)
next
  case (CallSetViewMode v)
  assume "selectedInBounds s"
  then show ?thesis using CallSetViewMode by (simp add: setViewMode_def selectedInBounds_def)
qed (simp_all add: eventOccurred_selInBounds setSelectedTilePosition_inBounds
      setScreenCenterTile2_def
      selectedInBounds_cong [of "render s" s]
      selectedInBounds_cong [of "setZLevel v s" s for v]
      selectedInBounds_cong [of "setScreenCenterTile p s" s for p])

lemma calls_selInBounds:
  "nonEmptyMap (tilemap s) \<Longrightarrow> selectedInBounds s \<Longrightarrow> selectedInBounds (calls cs s)"
  by (induction cs arbitrary: s) (simp_all add: call_selInBounds)

lemma new_selInBounds: "nonEmptyMap m \<Longrightarrow> selectedInBounds (TileView_new m i st v md d u)"
  by (simp add: selectedInBounds_def nonEmptyMap_def)

text \<open>
  Claim C3. On a map with at least one tile on every axis, the selection that
  \<^verbatim>\<open>setSelectedTilePosition\<close> stores lies between 0 and the map size minus one on
  each axis, for every requested position; so does the selection after a pointer move,
  after a selection key pressed on a selection that was within these bounds, and after
  any sequence of calls on a constructed tile view. On a map of size (10,10,5), selecting
  (20,20,1) stores (9,9,1).
\<close>

theorem selected_tile_within_map:
  assumes "nonEmptyMap m" and "tilemap s = m"
  shows "selectedInBounds (setSelectedTilePosition p s)
       \<and> selectedInBounds (eventOccurred (EVENT_MOUSE_MOVE X Y) s)
       \<and> (selectedInBounds s \<longrightarrow> selectedInBounds (eventOccurred (EVENT_KEY_DOWN k) s))
       \<and> selectedInBounds (calls cs (TileView_new m isoSz stratSz v md dpy ldm))
       \<and> (map_size m = Vec3 10 10 5 \<longrightarrow>
            selectedTilePosition (setSelectedTilePosition (Vec3 20 20 1) s) = Vec3 9 9 1)"
proof -
  have sm: "nonEmptyMap (tilemap s)" using assms by simp
  have a: "selectedInBounds (setSelectedTilePosition p s)"
    using sm by (rule setSelectedTilePosition_inBounds)
  have b: "selectedInBounds (eventOccurred (EVENT_MOUSE_MOVE X Y) s)"
    using sm by (simp add: eventOccurred_def setSelectedTilePosition_inBounds)
  have c: "selectedInBounds s \<longrightarrow> selectedInBounds (eventOccurred (EVENT_KEY_DOWN k) s)"
    by (simp add: eventOccurred_def keyDown_selInBounds)
  have d: "selectedInBounds (calls cs (TileView_new m isoSz stratSz v md dpy ldm))"
    using assms(1) by (simp add: calls_selInBounds new_selInBounds)
  have e: "map_size m = Vec3 10 10 5 \<longrightarrow>
            selectedTilePosition (setSelectedTilePosition (Vec3 20 20 1) s) = Vec3 9 9 1"
    using assms(2) by (simp add: setSelectedTilePosition_def Let_def clampSelAxis_def)
  from a b c d e show ?thesis by blast
qed

theorem selected_tile_within_map_witness:
  "nonEmptyMap exampleMap
   \<and> selectedInBounds (exampleView Battle)
   \<and> selectedInBounds (setSelectedTilePosition (Vec3 20 20 1) (exampleView Battle))
   \<and> selectedTilePosition (setSelectedTilePosition (Vec3 20 20 1) (exampleView Battle))
       = Vec3 9 9 1
   \<and> selectedInBounds (eventOccurred (EVENT_KEY_DOWN SDLK_s) (exampleView Battle))
   \<and> selectedInBounds (eventOccurred (EVENT_MOUSE_MOVE 5000 (-40)) (exampleView Battle))"
  using selected_tile_within_map [where m = exampleMap and s = "exampleView Battle"
      and p = "Vec3 20 20 1" and isoSz = "Vec3 32 16 8" and stratSz = "Vec2 8 8"
      and v = Isometric and md = Battle and dpy = "Vec2 640 480" and ldm = AllLevels
      and cs = "[]" and k = SDLK_s and X = 5000 and Y = "-40"]
  unfolding exampleView_def [symmetric]
  by (simp add: nonEmptyMap_def)

section \<open>The z-level\<close>

text \<open>
  Claim C4. For every integer \<open>v\<close>, after \<^verbatim>\<open>setZLevel(v)\<close> on a tile view constructed
  over a map and used through any sequence of calls, the current z-level is
  \<open>clamp v 1 maxZDraw\<close>, where \<open>maxZDraw\<close> is the z size of the map.
\<close>

theorem setZLevel_clamps:
  "getZLevel (setZLevel v (calls cs (TileView_new m isoSz stratSz vm md dpy ldm)))
     = clamp v 1 (z3 (map_size m))"
  by (simp add: getZLevel_def)

theorem setZLevel_clamps_witness:
  "getZLevel (setZLevel 9 (exampleView City)) = 5
   \<and> getZLevel (setZLevel (-3) (exampleView City)) = 1
   \<and> getZLevel (setZLevel 4 (exampleView City)) = 4"
  using setZLevel_clamps [where cs = "[]" and m = exampleMap and v = 9
      and isoSz = "Vec3 32 16 8" and stratSz = "Vec2 8 8" and vm = Isometric and md = City
      and dpy = "Vec2 640 480" and ldm = AllLevels]
    setZLevel_clamps [where cs = "[]" and m = exampleMap and v = "-3"
      and isoSz = "Vec3 32 16 8" and stratSz = "Vec2 8 8" and vm = Isometric and md = City
      and dpy = "Vec2 640 480" and ldm = AllLevels]
    setZLevel_clamps [where cs = "[]" and m = exampleMap and v = 4
      and isoSz = "Vec3 32 16 8" and stratSz = "Vec2 8 8" and vm = Isometric and md = City
      and dpy = "Vec2 640 480" and ldm = AllLevels]
  by (simp add: exampleView_def clamp_def)

section \<open>Pointer selection\<close>

lemma clampSelAxis_min_max: "clampSelAxis v n = min (n - 1) (max 0 v)"
  by (simp add: clampSelAxis_def Let_def min_def max_def)

text \<open>
  Claim C7. A pointer-move event stores as selected tile the device coordinates, with
  the fixed vertical offset added to y and the screen offset subtracted, transformed back
  at the plane \<open>currentZLevel - 1\<close> and clamped to the map; it changes nothing else, in
  particular not the camera centre.
\<close>

theorem pointer_move_selects_tile:
  "eventOccurred (EVENT_MOUSE_MOVE X Y) s = s\<lparr>selectedTilePosition := specPointerTile s X Y\<rparr>
   \<and> centerPos (eventOccurred (EVENT_MOUSE_MOVE X Y) s) = centerPos s"
  by (simp add: eventOccurred_def setSelectedTilePosition_def specPointerTile_def Let_def
      clampToMap_def clampSelAxis_min_max mouseTile_def pointerYOffset_def to_float2_def
      to_int3_def float_of_int_def)

theorem pointer_move_selects_tile_witness:
  "selectedTilePosition (eventOccurred (EVENT_MOUSE_MOVE 400 300) (exampleView Battle))
     = Vec3 2 0 0
   \<and> specPointerTile (exampleView Battle) 400 300 = Vec3 2 0 0
   \<and> centerPos (eventOccurred (EVENT_MOUSE_MOVE 400 300) (exampleView Battle))
     = Vec3 (Finite 0) (Finite 0) (Finite 0)"
proof -
  have a: "specPointerTile (exampleView Battle) 400 300 = Vec3 2 0 0" by code_simp
  have b: "centerPos (exampleView Battle) = Vec3 (Finite 0) (Finite 0) (Finite 0)"
    by (simp add: exampleView_def)
  from pointer_move_selects_tile [of 400 300 "exampleView Battle"] a b
  show ?thesis by simp
qed

section \<open>Strategy scrolling\<close>

lemma centerPos_setScreenCenterTile:
  "centerPos (setScreenCenterTile c s) = clampCenter (map_size (tilemap s)) c"
  by (simp add: setScreenCenterTile_def clampCenter_def Let_def)

lemma clampCenterAxis_id:
  "fle (Finite 0) c \<Longrightarrow> fle c (float_of_int n) \<Longrightarrow> clampCenterAxis c n = c"
  by (cases c) (auto simp add: clampCenterAxis_def fle_def fgt_def float_of_int_def)

lemma clampCenter_id: "posInBounds sz c \<Longrightarrow> clampCenter sz c = c"
  by (cases c) (simp add: posInBounds_def clampCenter_def clampCenterAxis_id)

lemma scroll_axis:
  "(if r then fadd (if l then fsub x v else x) v else (if l then fsub x v else x))
     = fadd x (fsub (scaled r v) (scaled l v))"
  by (cases x; cases v) (simp_all add: scaled_def fsub_def)

lemma stratScroll_eq:
  "stratScroll s (centerPos s) = specStrategyAdvance s"
proof (rule Vec3.expand, intro conjI)
  let ?p = "centerPos s"
  let ?sx = "x2 (stratScrollSpeed s)"
  let ?sy = "y2 (stratScrollSpeed s)"
  have "x3 (stratScroll s ?p)
          = (if scrollRight s then fadd (if scrollLeft s then fsub (x3 ?p) ?sx else x3 ?p) ?sx
             else (if scrollLeft s then fsub (x3 ?p) ?sx else x3 ?p))"
    by (simp add: stratScroll_def Let_def)
  then show "x3 (stratScroll s ?p) = x3 (specStrategyAdvance s)"
    by (simp only: scroll_axis specStrategyAdvance_def Vec3.sel)
  have "y3 (stratScroll s ?p)
          = (if scrollDown s then fadd (if scrollUp s then fsub (y3 ?p) ?sy else y3 ?p) ?sy
             else (if scrollUp s then fsub (y3 ?p) ?sy else y3 ?p))"
    by (simp add: stratScroll_def Let_def)
  then show "y3 (stratScroll s ?p) = y3 (specStrategyAdvance s)"
    by (simp only: scroll_axis specStrategyAdvance_def Vec3.sel)
  show "z3 (stratScroll s ?p) = z3 (specStrategyAdvance s)"
    by (simp add: stratScroll_def specStrategyAdvance_def Let_def)
qed

lemma render_strategy:
  "viewMode s = Strategy \<Longrightarrow>
     centerPos (render s) = clampCenter (map_size (tilemap s)) (specStrategyAdvance s)"
  by (simp add: renderCamera_def Let_def centerPos_setScreenCenterTile stratScroll_eq)

lemma call_viewMode: "\<not> isSetViewMode c \<Longrightarrow> viewMode (call c s) = viewMode s"
  by (cases c) (simp_all add: setLayerDrawingMode_def setScreenCenterTile2_def)

lemma calls_viewMode: "\<forall>c\<in>set cs. \<not> isSetViewMode c \<Longrightarrow> viewMode (calls cs s) = viewMode s"
  by (induction cs arbitrary: s) (simp_all add: call_viewMode)

text \<open>
  Claim C8. \<^verbatim>\<open>setViewMode(Strategy)\<close> leaves the camera centre unchanged. After it,
  through any calls that do not set the view mode again, the view mode stays Strategy and
  every \<^verbatim>\<open>render\<close> moves the centre by the strategy scroll speed along the axes
  (right minus left on x, down minus up on y), then clamps it to the map: when the
  advanced centre is on the map it is stored as it is.
\<close>

theorem strategy_switch_keeps_center:
  assumes "\<forall>c\<in>set cs. \<not> isSetViewMode c"
    and "t = calls cs (setViewMode Strategy s)"
  shows "centerPos (setViewMode Strategy s) = centerPos s
       \<and> viewMode t = Strategy
       \<and> stratScrollSpeed t = stratScrollSpeed s
       \<and> centerPos (render t) = clampCenter (map_size (tilemap t)) (specStrategyAdvance t)
       \<and> (posInBounds (map_size (tilemap t)) (specStrategyAdvance t) \<longrightarrow>
            centerPos (render t) = specStrategyAdvance t)"
proof -
  have vm: "viewMode t = Strategy"
    using assms by (simp add: calls_viewMode setViewMode_def)
  have sp: "stratScrollSpeed t = stratScrollSpeed s"
    using assms(2) by (simp add: setViewMode_def)
  have r: "centerPos (render t) = clampCenter (map_size (tilemap t)) (specStrategyAdvance t)"
    using vm by (rule render_strategy)
  have "centerPos (setViewMode Strategy s) = centerPos s"
    by (simp add: setViewMode_def)
  with vm sp r show ?thesis by (simp add: clampCenter_id)
qed

theorem strategy_switch_keeps_center_witness:
  "centerPos (setViewMode Strategy (exampleView City)) = Vec3 (Finite 0) (Finite 0) (Finite 0)
   \<and> stratScrollSpeed (exampleView City) = Vec2 (Finite 2) (Finite 2)
   \<and> centerPos (render (calls [CallEventOccurred (EVENT_KEY_DOWN SDLK_RIGHT), CallRender,
                                CallEventOccurred (EVENT_KEY_DOWN SDLK_DOWN)]
                               (setViewMode Strategy (exampleView City))))
     = Vec3 (Finite 4) (Finite 2) (Finite 0)"
proof -
  let ?cs = "[CallEventOccurred (EVENT_KEY_DOWN SDLK_RIGHT), CallRender,
              CallEventOccurred (EVENT_KEY_DOWN SDLK_DOWN)]"
  let ?t = "calls ?cs (setViewMode Strategy (exampleView City))"
  have h: "\<forall>c\<in>set ?cs. \<not> isSetViewMode c" by simp
  have adv: "specStrategyAdvance ?t = Vec3 (Finite 4) (Finite 2) (Finite 0)" by code_simp
  have m: "map_size (tilemap ?t) = Vec3 10 10 5" by (simp add: setViewMode_def exampleView_def)
  have b: "posInBounds (map_size (tilemap ?t)) (specStrategyAdvance ?t)"
    unfolding adv m by (simp add: posInBounds_def fle_def float_of_int_def)
  have c: "centerPos (setViewMode Strategy (exampleView City))
             = Vec3 (Finite 0) (Finite 0) (Finite 0)"
    by (simp add: setViewMode_def exampleView_def)
  have d: "stratScrollSpeed (exampleView City) = Vec2 (Finite 2) (Finite 2)"
    by (simp add: exampleView_def)
  from strategy_switch_keeps_center [OF h refl, of "exampleView City"] b
  have "centerPos (render ?t) = specStrategyAdvance ?t" by blast
  with adv c d show ?thesis by simp
qed

section \<open>Round trip of the coordinate transform\<close>

text \<open>
  Claim C1. With tile sizes that are not zero, transforming a tile coordinate (three
  numbers) to the screen and back at the same z recovers the coordinate, in Isometric and
  in Strategy mode. The transform is the one the specification describes, in exact
  arithmetic, where the recovery is exact.
\<close>

theorem transform_round_trip:
  assumes "x3 (isoTileSize s) \<noteq> 0" and "y3 (isoTileSize s) \<noteq> 0"
    and "x2 (stratTileSize s) \<noteq> 0" and "y2 (stratTileSize s) \<noteq> 0"
    and "t = Vec3 (Finite a) (Finite b) (Finite c)"
  shows "screenToTileCoords s (tileToScreenCoords s t Isometric) (z3 t) Isometric = t
       \<and> screenToTileCoords s (tileToScreenCoords s t Strategy) (z3 t) Strategy = t"
  using assms
  by (simp add: screenToTileCoords_def tileToScreenCoords_def Let_def float_of_int_def
      field_simps)

theorem transform_round_trip_witness:
  "screenToTileCoords (exampleView City)
      (tileToScreenCoords (exampleView City) (Vec3 (Finite 3) (Finite 7) (Finite 2)) Isometric)
      (Finite 2) Isometric = Vec3 (Finite 3) (Finite 7) (Finite 2)
   \<and> tileToScreenCoords (exampleView City) (Vec3 (Finite 3) (Finite 7) (Finite 2)) Isometric
     = Vec2 (Finite (-128)) (Finite 144)
   \<and> screenToTileCoords (exampleView City)
      (tileToScreenCoords (exampleView City) (Vec3 (Finite 3) (Finite 7) (Finite 2)) Strategy)
      (Finite 2) Strategy = Vec3 (Finite 3) (Finite 7) (Finite 2)
   \<and> tileToScreenCoords (exampleView City) (Vec3 (Finite 3) (Finite 7) (Finite 2)) Strategy
     = Vec2 (Finite 24) (Finite 56)"
proof -
  have a: "tileToScreenCoords (exampleView City) (Vec3 (Finite 3) (Finite 7) (Finite 2))
             Isometric = Vec2 (Finite (-128)) (Finite 144)" by code_simp
  have b: "tileToScreenCoords (exampleView City) (Vec3 (Finite 3) (Finite 7) (Finite 2))
             Strategy = Vec2 (Finite 24) (Finite 56)" by code_simp
  have n: "x3 (isoTileSize (exampleView City)) \<noteq> 0 \<and> y3 (isoTileSize (exampleView City)) \<noteq> 0
         \<and> x2 (stratTileSize (exampleView City)) \<noteq> 0
         \<and> y2 (stratTileSize (exampleView City)) \<noteq> 0"
    by (simp add: exampleView_def)
  from transform_round_trip [of "exampleView City" "Vec3 (Finite 3) (Finite 7) (Finite 2)"
      3 7 2] n a b
  show ?thesis by simp
qed

section \<open>Drawing order\<close>

lemma forLoop_concat: "forLoop i n body = concat (map body [i..n - 1])"
proof (induction i n body rule: forLoop.induct)
  case (1 i to body)
  show ?case
  proof (cases "i < to")
    case True
    then have "[i..to - 1] = i # [i + 1..to - 1]" by (simp add: upto_rec1)
    with True 1 show ?thesis by (subst forLoop.simps) simp
  next
    case False
    then show ?thesis by (subst forLoop.simps) simp
  qed
qed

lemma objectsDrawn_append [simp]: "objectsDrawn (a @ b) = objectsDrawn a @ objectsDrawn b"
  by (simp add: objectsDrawn_def)

lemma objectsDrawn_Nil [simp]: "objectsDrawn [] = []"
  by (simp add: objectsDrawn_def)

lemma objectsDrawn_Cons [simp]: "objectsDrawn (e # es) = drawnObject e @ objectsDrawn es"
  by (simp add: objectsDrawn_def)



lemma objectsDrawn_drawObjects [simp]: "objectsDrawn (drawObjects s lvl objs) = objs"
  by (induction objs) (simp_all add: drawObject_def)

lemma objectsDrawn_drawObjectsSelected [simp]:
  "objectsDrawn (drawObjectsSelected s sel lvl objs) = objs"
  by (induction objs) (simp_all add: drawObject_def)

lemma objectsDrawn_drawTile [simp]:
  "objectsDrawn (drawTile s selection z layer y x)
     = layerObjects (getTile (tilemap s) x y z) layer"
  by (simp add: drawTile_def Let_def split: option.splits)



lemma objectsDrawn_strategyBox [simp]: "objectsDrawn (strategyBox s) = []"
  by (simp add: strategyBox_def Let_def)




section \<open>Selection bracket\<close>

lemma findUnit_iff: "findUnit b objs = (b \<or> Unit \<in> set (map getType objs))"
  by (induction objs arbitrary: b) auto

text \<open>
  Claim C5, amended. At a drawn level \<open>z\<close> the bracket images are chosen only in Battle
  mode with the Isometric view and the selected tile inside the visible rectangle; then
  the filled pair is chosen when \<open>z\<close> is the selected level and a unit intersects the
  tile, the empty pair when \<open>z\<close> is the selected level and no unit does, the background
  pair when \<open>z\<close> is any level below the selected one, and none above it.
\<close>

theorem highlight_choice:
  "chosenImages s b z = map_option (highlightImages s) (codeHighlight s b z)"
  by (simp add: chosenImages_def levelSelection_def codeHighlight_def selectionShown_def
      highlightImages_def Let_def findUnit_iff unitIntersects_def)

theorem highlight_choice_witness:
  "chosenImages deepSelection (visibleBounds deepSelection) 2
     = Some (Some ''battle/selected-battletile-empty-back.png'',
             Some ''battle/selected-battletile-empty-front.png'')
   \<and> chosenImages deepSelection (visibleBounds deepSelection) 1
     = Some (Some ''battle/selected-battletile-background-back.png'',
             Some ''battle/selected-battletile-background-front.png'')
   \<and> chosenImages deepSelection (visibleBounds deepSelection) 3 = None"
proof -
  have a: "map_option (highlightImages deepSelection)
             (codeHighlight deepSelection (visibleBounds deepSelection) 2)
     = Some (Some ''battle/selected-battletile-empty-back.png'',
             Some ''battle/selected-battletile-empty-front.png'')" by code_simp
  have b: "map_option (highlightImages deepSelection)
             (codeHighlight deepSelection (visibleBounds deepSelection) 1)
     = Some (Some ''battle/selected-battletile-background-back.png'',
             Some ''battle/selected-battletile-background-front.png'')" by code_simp
  have c: "map_option (highlightImages deepSelection)
             (codeHighlight deepSelection (visibleBounds deepSelection) 3) = None" by code_simp
  from a b c highlight_choice [of deepSelection "visibleBounds deepSelection"]
  show ?thesis by simp
qed

text \<open>
  Claim C5 as stated fails: with the tile (0,0,2) selected, level 0 is two levels behind
  the selection and not one, and the render pass chooses and draws the background pair
  there, as it does on level 1.
\<close>

theorem background_two_levels_behind:
  "z3 (selectedTilePosition deepSelection) = 2
   \<and> claimedHighlight deepSelection 0 = None
   \<and> chosenImages deepSelection (visibleBounds deepSelection) 0
       = Some (Some ''battle/selected-battletile-background-back.png'',
               Some ''battle/selected-battletile-background-front.png'')
   \<and> chosenImages deepSelection (visibleBounds deepSelection) 0
       \<noteq> map_option (highlightImages deepSelection) (claimedHighlight deepSelection 0)
   \<and> imagesDrawn (fw_trace (render deepSelection))
       = [Some ''battle/selected-battletile-background-back.png'',
          Some ''battle/selected-battletile-background-front.png'',
          Some ''battle/selected-battletile-background-back.png'',
          Some ''battle/selected-battletile-background-front.png'',
          Some ''battle/selected-battletile-empty-back.png'',
          Some ''battle/selected-battletile-empty-front.png'']"
  by code_simp

section \<open>Values outside the enumerations\<close>

lemma logsOf_append [simp]: "logsOf (a @ b) = logsOf a @ logsOf b"
  by (simp add: logsOf_def)

lemma logsOf_Nil [simp]: "logsOf [] = []"
  by (simp add: logsOf_def)

lemma logsOf_Cons [simp]: "logsOf (e # es) = logOf e @ logsOf es"
  by (simp add: logsOf_def)

lemma logsOf_concat: "logsOf (concat xss) = concat (map logsOf xss)"
  by (induction xss) simp_all

lemma logsOf_forLoop: "(\<And>k. logsOf (body k) = []) \<Longrightarrow> logsOf (forLoop i n body) = []"
  by (simp add: forLoop_concat logsOf_concat)

lemma logsOf_drawObjects [simp]: "logsOf (drawObjects s lvl objs) = []"
  by (induction objs) (simp_all add: drawObject_def logOf_def)

lemma logsOf_drawObjectsSelected [simp]: "logsOf (drawObjectsSelected s sel lvl objs) = []"
  by (induction objs) (simp_all add: drawObject_def logOf_def)

lemma logsOf_drawTile [simp]: "logsOf (drawTile s selection z layer y x) = []"
  by (simp add: drawTile_def Let_def logOf_def split: option.splits)

lemma logsOf_renderLevels [simp]: "logsOf (renderLevels s) = []"
  by (simp add: renderLevels_def Let_def logsOf_forLoop split: prod.splits)

lemma logsOf_strategyBox [simp]: "logsOf (strategyBox s) = []"
  by (simp add: strategyBox_def Let_def logOf_def)

lemma logsOf_render:
  "logsOf (fw_trace (render s)) =
     logsOf (fw_trace s)
     @ (if viewMode s = Isometric \<or> viewMode s = Strategy then []
        else [(LevelError, ''Unknown view mode'')])"
  by (simp add: render_def renderCamera_def setScreenCenterTile_def emit_def Let_def logOf_def)

lemma centerPos_render_unknown:
  "viewMode s = UnknownViewMode n \<Longrightarrow>
     centerPos (renderCamera s) = clampCenter (map_size (tilemap s)) (centerPos s)"
  by (simp add: renderCamera_def Let_def centerPos_setScreenCenterTile)

lemma centerInBounds_posInBounds:
  "centerInBounds s = posInBounds (map_size (tilemap s)) (centerPos s)"
  by (simp add: centerInBounds_def posInBounds_def Let_def)

text \<open>
  Claim C6, amended. With a view mode outside the enumeration \<^verbatim>\<open>render\<close> logs the
  error ``Unknown view mode'' and goes on; it applies no scroll delta: the centre is only
  clamped again, so a centre on the map stays as it is. With a layer-drawing mode outside
  the enumeration nothing is logged; \<^verbatim>\<open>render\<close> draws all levels, 0 up to
  \<open>maxZDraw\<close>. The constructor logs an error for a mode that is neither City nor Battle.
\<close>

theorem unknown_modes:
  "(viewMode s = UnknownViewMode n \<longrightarrow>
      logsOf (fw_trace (render s)) = logsOf (fw_trace s) @ [(LevelError, ''Unknown view mode'')]
      \<and> centerPos (render s) = clampCenter (map_size (tilemap s)) (centerPos s)
      \<and> (centerInBounds s \<longrightarrow> centerPos (render s) = centerPos s))
   \<and> (layerDrawingMode s = UnknownLayerDrawingMode k \<longrightarrow>
      zRange s = (0, maxZDraw s)
      \<and> (viewMode s = Isometric \<or> viewMode s = Strategy \<longrightarrow>
           logsOf (fw_trace (render s)) = logsOf (fw_trace s)))
   \<and> logsOf (fw_trace (TileView_new m isoSz stratSz v (UnknownMode j) dpy ldm))
       = [(LevelError, ''Unknown TileView::Mode %d''), (LevelInfo, ''dpySize: {%d,%d}'')]"
  by (simp add: logsOf_render centerPos_render_unknown centerInBounds_posInBounds
      clampCenter_id zRange_def TileView_new_def emit_def Let_def logOf_def)

theorem unknown_modes_witness:
  "viewMode unknownView = UnknownViewMode 5 \<and> scrollRight unknownView
   \<and> centerInBounds unknownView
   \<and> centerPos (render unknownView) = centerPos unknownView
   \<and> logsOf (fw_trace (render unknownView))
       = logsOf (fw_trace unknownView) @ [(LevelError, ''Unknown view mode'')]
   \<and> layerDrawingMode unknownLayers = UnknownLayerDrawingMode 7
   \<and> viewMode unknownLayers = Isometric
   \<and> zRange unknownLayers = (0, 3)
   \<and> logsOf (fw_trace (render unknownLayers)) = logsOf (fw_trace unknownLayers)"
proof -
  have v: "viewMode unknownView = UnknownViewMode 5" by code_simp
  have r: "scrollRight unknownView" by code_simp
  have c: "centerInBounds unknownView" by code_simp
  have l: "layerDrawingMode unknownLayers = UnknownLayerDrawingMode 7" by code_simp
  have i: "viewMode unknownLayers = Isometric" by code_simp
  have m: "maxZDraw unknownLayers = 3" by code_simp
  from unknown_modes [of unknownView 5] v c
  have a: "centerPos (render unknownView) = centerPos unknownView
       \<and> logsOf (fw_trace (render unknownView))
           = logsOf (fw_trace unknownView) @ [(LevelError, ''Unknown view mode'')]"
    by blast
  from unknown_modes [of unknownLayers _ 7] l i m
  have b: "zRange unknownLayers = (0, 3)
       \<and> logsOf (fw_trace (render unknownLayers)) = logsOf (fw_trace unknownLayers)"
    by simp
  from v r c l i a b show ?thesis by blast
qed

text \<open>
  Claim C6 as stated fails: a layer-drawing mode outside the enumeration is stored
  without a message, and a render pass with it logs nothing.
\<close>

theorem unknown_layer_mode_not_logged:
  "layerDrawingMode unknownLayers = UnknownLayerDrawingMode 7
   \<and> logsOf (fw_trace unknownLayers) = logsOf (fw_trace smallView)
   \<and> logsOf (fw_trace (render unknownLayers)) = logsOf (fw_trace unknownLayers)
   \<and> logsOf (fw_trace (render unknownLayers)) = [(LevelInfo, ''dpySize: {%d,%d}'')]"
  by code_simp

section \<open>Layer-drawing mode\<close>

text \<open>
  Claim C10. On a tile view constructed in Battle mode (and used through any sequence of
  calls) \<^verbatim>\<open>setLayerDrawingMode\<close> stores the requested layer-drawing mode and changes
  nothing else; on a tile view constructed in any other mode the call changes nothing at
  all.
\<close>

theorem setLayerDrawingMode_only_in_battle:
  "(md = Battle \<longrightarrow>
      setLayerDrawingMode l (calls cs (TileView_new m isoSz stratSz vm md dpy ldm))
        = (calls cs (TileView_new m isoSz stratSz vm md dpy ldm))\<lparr>layerDrawingMode := l\<rparr>)
   \<and> (md \<noteq> Battle \<longrightarrow>
      setLayerDrawingMode l (calls cs (TileView_new m isoSz stratSz vm md dpy ldm))
        = calls cs (TileView_new m isoSz stratSz vm md dpy ldm))"
  by (simp add: setLayerDrawingMode_def)

theorem setLayerDrawingMode_only_in_battle_witness:
  "layerDrawingMode (setLayerDrawingMode OnlyCurrentLevel (exampleView Battle))
     = OnlyCurrentLevel
   \<and> setLayerDrawingMode OnlyCurrentLevel (exampleView City) = exampleView City
   \<and> layerDrawingMode (exampleView City) = AllLevels"
  using setLayerDrawingMode_only_in_battle [where md = Battle and cs = "[]"
      and l = OnlyCurrentLevel and m = exampleMap and isoSz = "Vec3 32 16 8"
      and stratSz = "Vec2 8 8" and vm = Isometric and dpy = "Vec2 640 480" and ldm = AllLevels]
    setLayerDrawingMode_only_in_battle [where md = City and cs = "[]"
      and l = OnlyCurrentLevel and m = exampleMap and isoSz = "Vec3 32 16 8"
      and stratSz = "Vec2 8 8" and vm = Isometric and dpy = "Vec2 640 480" and ldm = AllLevels]
  by (simp add: exampleView_def TileView_new_def emit_def)


end
